theory Spec2Isabelle
  imports Main "HOL-Library.Word"
begin

unbundle bit_operations_syntax

section \<open>Python values used by the protocol code\<close>

text \<open>
  Bytes are 8-bit words and a byte string is a list of them.  Python integers are
  unbounded; lengths and unsigned fields are natural numbers, an opcode handed to an
  encoder is an \<open>int\<close>.  Every place where the Python raises is a value \<open>Inl e\<close>.
\<close>

type_synonym byte = "8 word"

datatype py_error = IndexError | StructError | ValueError | UnicodeDecodeError

text \<open>\<open>xs[a:b]\<close> for \<open>0 \<le> a\<close>: slicing never raises, it stops at the end of \<open>xs\<close>.\<close>

definition slice :: "'a list \<Rightarrow> nat \<Rightarrow> nat \<Rightarrow> 'a list" where
  "slice xs a b = take (b - a) (drop a xs)"

text \<open>\<open>xs[i]\<close> for \<open>0 \<le> i\<close>: raises IndexError out of range.\<close>

definition item :: "'a list \<Rightarrow> nat \<Rightarrow> py_error + 'a" where
  "item xs i = (if i < length xs then Inr (xs ! i) else Inl IndexError)"

text \<open>Big-endian unsigned integers: \<open>struct.unpack('>H', b)[0]\<close>, \<open>struct.unpack('>Q', b)[0]\<close>,
  \<open>struct.pack('>H', n)\<close>, \<open>struct.pack('>Q', n)\<close> and \<open>struct.pack('!I', n)\<close>.\<close>

definition be_nat :: "byte list \<Rightarrow> nat" where
  "be_nat bs = foldl (\<lambda>acc b. acc * 256 + unat b) 0 bs"

fun be_bytes :: "nat \<Rightarrow> nat \<Rightarrow> byte list" where
  "be_bytes 0 n = []"
| "be_bytes (Suc k) n = be_bytes k (n div 256) @ [of_nat (n mod 256)]"

definition struct_unpack :: "nat \<Rightarrow> byte list \<Rightarrow> py_error + nat" where
  "struct_unpack width bs = (if length bs = width then Inr (be_nat bs) else Inl StructError)"

definition struct_pack :: "nat \<Rightarrow> nat \<Rightarrow> py_error + byte list" where
  "struct_pack width n = (if n < 256 ^ width then Inr (be_bytes width n) else Inl StructError)"

text \<open>\<open>bytearray.append(v)\<close>: raises ValueError unless \<open>0 \<le> v < 256\<close>.\<close>

definition bytearray_append :: "byte list \<Rightarrow> int \<Rightarrow> py_error + byte list" where
  "bytearray_append frame v =
     (if 0 \<le> v \<and> v < 256 then Inr (frame @ [word_of_int v]) else Inl ValueError)"

section \<open>Frame decoding and encoding\<close>

subsection \<open>The XOR cycle\<close>

text \<open>
  The loop \<open>for i in range(len(payload)): out.append(payload[i] ^ key[i % 4])\<close>, as it is
  written in \<open>parse_websocket_frame\<close> (WS_Server.py), in \<open>decode_frame\<close>
  (simple_ws_server.py) and in \<open>create_frame\<close> (simple_ws_client.py).  The second argument
  is the part of the payload still to be done, the third the index \<open>i\<close> of its first byte.
\<close>

fun xor_cycle :: "byte list \<Rightarrow> byte list \<Rightarrow> nat \<Rightarrow> py_error + byte list" where
  "xor_cycle key [] i = Inr []"
| "xor_cycle key (payload_byte # rest) i =
     (case item key (i mod 4) of
        Inl e \<Rightarrow> Inl e
      | Inr mask_byte \<Rightarrow>
          (case xor_cycle key rest (Suc i) of
             Inl e \<Rightarrow> Inl e
           | Inr out \<Rightarrow> Inr ((payload_byte XOR mask_byte) # out)))"

text \<open>Unmasking in the server decoders (WS_Server.py lines 87-93).\<close>

definition unmask :: "byte list \<Rightarrow> byte list \<Rightarrow> py_error + byte list" where
  "unmask payload masking_key = xor_cycle masking_key payload 0"

text \<open>Masking in the client encoder (simple_ws_client.py lines 119-127).\<close>

definition mask :: "byte list \<Rightarrow> byte list \<Rightarrow> py_error + byte list" where
  "mask payload mask_key = xor_cycle mask_key payload 0"

subsection \<open>\<open>parse_websocket_frame\<close> (WS_Server.py)\<close>

text \<open>Lines 60-69: the extended payload length.  Returns the payload length and the new
  offset, or \<open>None\<close> where the code returns \<open>(None, None)\<close>.\<close>

definition parse_length :: "byte list \<Rightarrow> nat \<Rightarrow> nat \<Rightarrow> py_error + (nat \<times> nat) option" where
  "parse_length data payload_length offset =
     (if payload_length = 126 then
        (if length data < offset + 2 then Inr None
         else case struct_unpack 2 (slice data offset (offset + 2)) of
                Inl e \<Rightarrow> Inl e
              | Inr n \<Rightarrow> Inr (Some (n, offset + 2)))
      else if payload_length = 127 then
        (if length data < offset + 8 then Inr None
         else case struct_unpack 8 (slice data offset (offset + 8)) of
                Inl e \<Rightarrow> Inl e
              | Inr n \<Rightarrow> Inr (Some (n, offset + 8)))
      else Inr (Some (payload_length, offset)))"

text \<open>Lines 72-78: the masking key (\<open>None\<close> inside when the frame is not masked) and the
  new offset.\<close>

definition parse_masking_key ::
  "byte list \<Rightarrow> byte \<Rightarrow> nat \<Rightarrow> (byte list option \<times> nat) option" where
  "parse_masking_key data masked offset =
     (if masked \<noteq> 0 then
        (if length data < offset + 4 then None
         else Some (Some (slice data offset (offset + 4)), offset + 4))
      else Some (None, offset))"

definition parse_websocket_frame :: "byte list \<Rightarrow> py_error + (int \<times> byte list) option" where
  "parse_websocket_frame data =
     (if length data < 2 then Inr None
      else case item data 0 of Inl e \<Rightarrow> Inl e | Inr first_byte \<Rightarrow>
          (case item data 1 of Inl e \<Rightarrow> Inl e | Inr second_byte \<Rightarrow>
           (let opcode = uint (first_byte AND 0x0f);
                masked = drop_bit 7 second_byte AND 1
            in case parse_length data (unat (second_byte AND 0x7f)) 2 of
                 Inl e \<Rightarrow> Inl e
               | Inr None \<Rightarrow> Inr None
               | Inr (Some (payload_length, offset)) \<Rightarrow>
                   (case parse_masking_key data masked offset of
                      None \<Rightarrow> Inr None
                    | Some (masking_key, offset) \<Rightarrow>
                        if length data < offset + payload_length then Inr None
                        else
                          (let payload = slice data offset (offset + payload_length)
                           in case masking_key of
                                Some key \<Rightarrow>
                                  if masked \<noteq> 0 \<and> key \<noteq> [] then
                                    (case unmask payload key of
                                       Inl e \<Rightarrow> Inl e
                                     | Inr unmasked_payload \<Rightarrow>
                                         Inr (Some (opcode, unmasked_payload)))
                                  else Inr (Some (opcode, payload))
                              | None \<Rightarrow> Inr (Some (opcode, payload)))))))"

subsection \<open>\<open>create_websocket_frame\<close> (WS_Server.py)\<close>

definition create_websocket_frame :: "int \<Rightarrow> byte list \<Rightarrow> py_error + byte list" where
  "create_websocket_frame opcode payload =
     (case bytearray_append [] (0x80 OR opcode) of
        Inl e \<Rightarrow> Inl e
      | Inr frame \<Rightarrow>
          (let payload_length = length payload
           in case (if payload_length < 126 then bytearray_append frame (int payload_length)
                    else if payload_length < 65536 then
                      (case bytearray_append frame 126 of
                         Inl e \<Rightarrow> Inl e
                       | Inr frame \<Rightarrow>
                           (case struct_pack 2 payload_length of
                              Inl e \<Rightarrow> Inl e
                            | Inr packed \<Rightarrow> Inr (frame @ packed)))
                    else
                      (case bytearray_append frame 127 of
                         Inl e \<Rightarrow> Inl e
                       | Inr frame \<Rightarrow>
                           (case struct_pack 8 payload_length of
                              Inl e \<Rightarrow> Inl e
                            | Inr packed \<Rightarrow> Inr (frame @ packed)))) of
                Inl e \<Rightarrow> Inl e
              | Inr frame \<Rightarrow> Inr (frame @ payload)))"

subsection \<open>\<open>SimpleWebSocketServer.decode_frame\<close> (simple_ws_server.py)\<close>

text \<open>The dictionary returned by the decoders: its keys are \<open>'fin'\<close>, \<open>'opcode'\<close>,
  \<open>'payload'\<close> and \<open>'payload_length'\<close>.\<close>

record frame =
  frame_fin :: byte
  frame_opcode :: int
  frame_payload :: "byte list"
  frame_payload_length :: nat

text \<open>Lines 84-94: the header length and the payload length.\<close>

definition header_length_of :: "byte list \<Rightarrow> nat \<Rightarrow> py_error + (nat \<times> nat) option" where
  "header_length_of data payload_length =
     (if payload_length = 126 then
        (if length data < 4 then Inr None
         else case struct_unpack 2 (slice data 2 4) of
                Inl e \<Rightarrow> Inl e
              | Inr n \<Rightarrow> Inr (Some (n, 4)))
      else if payload_length = 127 then
        (if length data < 10 then Inr None
         else case struct_unpack 8 (slice data 2 10) of
                Inl e \<Rightarrow> Inl e
              | Inr n \<Rightarrow> Inr (Some (n, 10)))
      else Inr (Some (payload_length, 2)))"

definition decode_frame :: "byte list \<Rightarrow> py_error + frame option" where
  "decode_frame data =
     (if length data < 2 then Inr None
      else case item data 0 of Inl e \<Rightarrow> Inl e | Inr first_byte \<Rightarrow>
          (case item data 1 of Inl e \<Rightarrow> Inl e | Inr second_byte \<Rightarrow>
           (let fin = drop_bit 7 first_byte AND 1;
                opcode = uint (first_byte AND 0x0f);
                masked = drop_bit 7 second_byte AND 1
            in case header_length_of data (unat (second_byte AND 0x7f)) of
                 Inl e \<Rightarrow> Inl e
               | Inr None \<Rightarrow> Inr None
               | Inr (Some (payload_length, header_length)) \<Rightarrow>
                   if masked \<noteq> 0 then
                     (if length data < header_length + 4 then Inr None
                      else
                        (let mask = slice data header_length (header_length + 4);
                             header_length = header_length + 4
                         in if length data < header_length + payload_length then Inr None
                            else case unmask (slice data header_length
                                                (header_length + payload_length)) mask of
                                   Inl e \<Rightarrow> Inl e
                                 | Inr decoded_payload \<Rightarrow>
                                     Inr (Some \<lparr>frame_fin = fin, frame_opcode = opcode,
                                                frame_payload = decoded_payload,
                                                frame_payload_length = payload_length\<rparr>)))
                   else
                     (if length data < header_length + payload_length then Inr None
                      else Inr (Some \<lparr>frame_fin = fin, frame_opcode = opcode,
                                      frame_payload = slice data header_length
                                                  (header_length + payload_length),
                                      frame_payload_length = payload_length\<rparr>)))))"

subsection \<open>\<open>SimpleWebSocketClient\<close> (simple_ws_client.py)\<close>

text \<open>\<open>decode_frame\<close>, lines 135-181: the mask bit is read and then not used.\<close>

definition client_decode_frame :: "byte list \<Rightarrow> py_error + frame option" where
  "client_decode_frame data =
     (if length data < 2 then Inr None
      else case item data 0 of Inl e \<Rightarrow> Inl e | Inr first_byte \<Rightarrow>
          (case item data 1 of Inl e \<Rightarrow> Inl e | Inr second_byte \<Rightarrow>
           (let fin = drop_bit 7 first_byte AND 1;
                opcode = uint (first_byte AND 0x0f);
                masked = drop_bit 7 second_byte AND 1
            in case header_length_of data (unat (second_byte AND 0x7f)) of
                 Inl e \<Rightarrow> Inl e
               | Inr None \<Rightarrow> Inr None
               | Inr (Some (payload_length, header_length)) \<Rightarrow>
                   if length data < header_length + payload_length then Inr None
                   else Inr (Some \<lparr>frame_fin = fin, frame_opcode = opcode,
                                   frame_payload = slice data header_length
                                               (header_length + payload_length),
                                   frame_payload_length = payload_length\<rparr>))))"

text \<open>
  \<open>create_frame\<close>, lines 89-133, on a payload that is already a byte string.  The
  argument \<open>r\<close> is the number drawn by \<open>random.randint(0, 0xFFFFFFFF)\<close>.  Any exception is
  caught and \<open>None\<close> returned.
\<close>

definition struct_pack_B :: "int \<Rightarrow> py_error + byte list" where
  "struct_pack_B v = (if 0 \<le> v \<and> v < 256 then Inr [word_of_int v] else Inl StructError)"

definition create_frame_header :: "int \<Rightarrow> nat \<Rightarrow> py_error + byte list" where
  "create_frame_header first_byte payload_length =
     (case struct_pack_B first_byte of
        Inl e \<Rightarrow> Inl e
      | Inr b0 \<Rightarrow>
          if payload_length < 126 then
            (case struct_pack_B (0x80 OR int payload_length) of
               Inl e \<Rightarrow> Inl e
             | Inr b1 \<Rightarrow> Inr (b0 @ b1))
          else if payload_length < 65536 then
            (case struct_pack_B (0x80 OR 126) of
               Inl e \<Rightarrow> Inl e
             | Inr b1 \<Rightarrow>
                 (case struct_pack 2 payload_length of
                    Inl e \<Rightarrow> Inl e
                  | Inr ext \<Rightarrow> Inr (b0 @ b1 @ ext)))
          else
            (case struct_pack_B (0x80 OR 127) of
               Inl e \<Rightarrow> Inl e
             | Inr b1 \<Rightarrow>
                 (case struct_pack 8 payload_length of
                    Inl e \<Rightarrow> Inl e
                  | Inr ext \<Rightarrow> Inr (b0 @ b1 @ ext))))"

definition create_frame :: "nat \<Rightarrow> byte list \<Rightarrow> int \<Rightarrow> byte list option" where
  "create_frame r payload opcode =
     (let payload_length = length payload;
          first_byte = 0x80 OR opcode
      in case struct_pack 4 r of
           Inl e \<Rightarrow> None
         | Inr mask_key \<Rightarrow>
             (case create_frame_header first_byte payload_length of
                Inl e \<Rightarrow> None
              | Inr header \<Rightarrow>
                  (case mask payload mask_key of
                     Inl e \<Rightarrow> None
                   | Inr masked_payload \<Rightarrow> Some (header @ mask_key @ masked_payload))))"

section \<open>Text\<close>

text \<open>
  A Python text string is modelled by the list of its characters, a \<open>char\<close> being eight bits:
  the model is exact for ASCII text, where characters and UTF-8 bytes coincide, and the
  properties of \<open>lower\<close> and \<open>strip\<close> below are stated for ASCII text only.  Whether
  \<open>bytes.decode('utf-8')\<close> succeeds on given bytes is a parameter \<open>utf8\<close> of the functions
  that decode.
\<close>

definition str_encode :: "string \<Rightarrow> byte list" where
  "str_encode s = map (\<lambda>c. of_nat (of_char c)) s"

definition bytes_decode :: "byte list \<Rightarrow> string" where
  "bytes_decode bs = map (\<lambda>b. char_of (unat b)) bs"

definition ascii :: "string \<Rightarrow> bool" where
  "ascii s = list_all (\<lambda>c. (of_char c :: nat) < 128) s"

text \<open>\<open>str.lower()\<close> on ASCII text.\<close>

definition lower_char :: "char \<Rightarrow> char" where
  "lower_char c =
     (if 65 \<le> (of_char c :: nat) \<and> (of_char c :: nat) \<le> 90
      then char_of (of_char c + 32 :: nat) else c)"

definition lower :: "string \<Rightarrow> string" where
  "lower s = map lower_char s"

definition startswith :: "string \<Rightarrow> string \<Rightarrow> bool" where
  "startswith s p = (take (length p) s = p)"

text \<open>\<open>s.split(sep)\<close> for a separator of two characters, here \<open>'\r\n'\<close> and \<open>': '\<close>.\<close>

fun split2 :: "char \<Rightarrow> char \<Rightarrow> string \<Rightarrow> string list" where
  "split2 c1 c2 [] = [[]]"
| "split2 c1 c2 [x] = [[x]]"
| "split2 c1 c2 (x # y # rest) =
     (if x = c1 \<and> y = c2 then [] # split2 c1 c2 rest
      else (case split2 c1 c2 (y # rest) of
              [] \<Rightarrow> [[x]]
            | w # ws \<Rightarrow> (x # w) # ws))"

text \<open>\<open>s.split(c, 1)\<close> for a separator of one character.\<close>

definition split_once :: "char \<Rightarrow> string \<Rightarrow> string list" where
  "split_once c s =
     (if c \<in> set s then [takeWhile (\<lambda>x. x \<noteq> c) s, tl (dropWhile (\<lambda>x. x \<noteq> c) s)]
      else [s])"

text \<open>\<open>str.strip()\<close>: the white space of ASCII text is tab, line feed, vertical tab, form
  feed, carriage return, the four separators \<open>0x1c\<close> to \<open>0x1f\<close>, and the space.\<close>

definition is_space :: "char \<Rightarrow> bool" where
  "is_space c = ((9 \<le> (of_char c :: nat) \<and> (of_char c :: nat) \<le> 13)
                 \<or> (28 \<le> (of_char c :: nat) \<and> (of_char c :: nat) \<le> 32))"

definition strip :: "string \<Rightarrow> string" where
  "strip s = rev (dropWhile is_space (rev (dropWhile is_space s)))"

section \<open>\<open>hashlib.sha1\<close> and \<open>base64.b64encode\<close>\<close>

text \<open>
  The two library functions the accept key is computed with, modelled as their standards
  define them (FIPS 180-4 and RFC 4648).  The 32-bit words of SHA-1 are natural numbers
  below \<open>2 ^ 32\<close>, with the wrap-around written out.
\<close>

definition rotl :: "nat \<Rightarrow> nat \<Rightarrow> nat" where
  "rotl n x = (x * 2 ^ n) mod 2 ^ 32 + x div 2 ^ (32 - n)"

definition sha1_pad :: "byte list \<Rightarrow> byte list" where
  "sha1_pad m =
     m @ [0x80] @ replicate ((119 - length m mod 64) mod 64) 0 @ be_bytes 8 (8 * length m)"

fun words_of :: "byte list \<Rightarrow> nat list" where
  "words_of (a # b # c # d # rest) = be_nat [a, b, c, d] # words_of rest"
| "words_of _ = []"

text \<open>The message schedule: \<open>schedule 64\<close> extends the 16 words of a block to 80.\<close>

fun schedule :: "nat \<Rightarrow> nat list \<Rightarrow> nat list" where
  "schedule 0 w = w"
| "schedule (Suc n) w =
     schedule n (w @ [rotl 1 (w ! (length w - 3) XOR w ! (length w - 8)
                               XOR w ! (length w - 14) XOR w ! (length w - 16))])"

definition sha1_f :: "nat \<Rightarrow> nat \<Rightarrow> nat \<Rightarrow> nat \<Rightarrow> nat" where
  "sha1_f t b c d =
     (if t < 20 then (b AND c) OR ((4294967295 - b) AND d)
      else if t < 40 then b XOR c XOR d
      else if t < 60 then (b AND c) OR (b AND d) OR (c AND d)
      else b XOR c XOR d)"

definition sha1_k :: "nat \<Rightarrow> nat" where
  "sha1_k t =
     (if t < 20 then 0x5A827999 else if t < 40 then 0x6ED9EBA1
      else if t < 60 then 0x8F1BBCDC else 0xCA62C1D6)"

type_synonym sha1_state = "nat \<times> nat \<times> nat \<times> nat \<times> nat"

fun sha1_rounds :: "nat \<Rightarrow> nat list \<Rightarrow> sha1_state \<Rightarrow> sha1_state" where
  "sha1_rounds t [] s = s"
| "sha1_rounds t (w # ws) (a, b, c, d, e) =
     sha1_rounds (t + 1) ws
       ((rotl 5 a + sha1_f t b c d + e + sha1_k t + w) mod 2 ^ 32, a, rotl 30 b, c, d)"

definition sha1_block :: "sha1_state \<Rightarrow> nat list \<Rightarrow> sha1_state" where
  "sha1_block h w =
     (case h of (h0, h1, h2, h3, h4) \<Rightarrow>
        (case sha1_rounds 0 (schedule 64 w) h of
           (a, b, c, d, e) \<Rightarrow>
             ((h0 + a) mod 2 ^ 32, (h1 + b) mod 2 ^ 32, (h2 + c) mod 2 ^ 32,
              (h3 + d) mod 2 ^ 32, (h4 + e) mod 2 ^ 32)))"

fun sha1_blocks :: "nat \<Rightarrow> sha1_state \<Rightarrow> nat list \<Rightarrow> sha1_state" where
  "sha1_blocks 0 h ws = h"
| "sha1_blocks (Suc n) h ws = sha1_blocks n (sha1_block h (take 16 ws)) (drop 16 ws)"

definition sha1 :: "byte list \<Rightarrow> byte list" where
  "sha1 m =
     (let p = sha1_pad m
      in case sha1_blocks (length p div 64)
                (0x67452301, 0xEFCDAB89, 0x98BADCFE, 0x10325476, 0xC3D2E1F0) (words_of p) of
           (h0, h1, h2, h3, h4) \<Rightarrow>
             be_bytes 4 h0 @ be_bytes 4 h1 @ be_bytes 4 h2 @ be_bytes 4 h3 @ be_bytes 4 h4)"

definition b64_alphabet :: string where
  "b64_alphabet = ''ABCDEFGHIJKLMNOPQRSTUVWXYZabcdefghijklmnopqrstuvwxyz0123456789+/''"

definition b64_char :: "byte \<Rightarrow> byte" where
  "b64_char i = of_nat (of_char (b64_alphabet ! unat i))"

fun b64encode :: "byte list \<Rightarrow> byte list" where
  "b64encode [] = []"
| "b64encode [a] =
     [b64_char (drop_bit 2 a), b64_char (push_bit 4 (a AND 3)), 0x3d, 0x3d]"
| "b64encode [a, b] =
     [b64_char (drop_bit 2 a), b64_char (push_bit 4 (a AND 3) OR drop_bit 4 b),
      b64_char (push_bit 2 (b AND 15)), 0x3d]"
| "b64encode (a # b # c # rest) =
     [b64_char (drop_bit 2 a), b64_char (push_bit 4 (a AND 3) OR drop_bit 4 b),
      b64_char (push_bit 2 (b AND 15) OR drop_bit 6 c), b64_char (c AND 63)] @ b64encode rest"

section \<open>The opening handshake\<close>

definition WS_MAGIC_STRING :: string where
  "WS_MAGIC_STRING = ''258EAFA5-E914-47DA-95CA-C5AB0DC85B11''"

text \<open>\<open>create_websocket_accept_key\<close> (WS_Server.py lines 36-40).\<close>

definition create_websocket_accept_key :: "string \<Rightarrow> string" where
  "create_websocket_accept_key websocket_key =
     (let accept_key = websocket_key @ WS_MAGIC_STRING;
          sha1_hash = sha1 (str_encode accept_key)
      in bytes_decode (b64encode sha1_hash))"

text \<open>\<open>SimpleWebSocketServer.generate_accept_key\<close> (simple_ws_server.py lines 24-29).\<close>

definition generate_accept_key :: "string \<Rightarrow> string" where
  "generate_accept_key websocket_key =
     (let magic_string = ''258EAFA5-E914-47DA-95CA-C5AB0DC85B11'';
          combined = websocket_key @ magic_string;
          sha1_hash = sha1 (str_encode combined)
      in bytes_decode (b64encode sha1_hash))"

text \<open>What one call of \<open>recv\<close> gives: bytes (none when the peer has closed), a timeout, or
  another socket error.\<close>

datatype recv_result = Recv "byte list" | RecvTimeout | RecvError

text \<open>What a handler does that can be observed: the bytes it sends, and what it logs or
  prints.\<close>

datatype event =
    Sent "byte list"
  | NoKeyFound
  | HandshakeCompleted
  | HandshakeError
  | HandshakeFailedForClient
  | ClientConnected nat
  | ClientDisconnected nat
  | SocketClosed
  | StreamMessage "byte list"
  | DecodeFailed
  | BinaryStream "byte list"
  | PongSent
  | PongError py_error
  | PongReceived
  | CloseReceived
  | InvalidFrame
  | UnknownOpcode int
  | ConnectionClosed
  | FrameError py_error
  | ReceivedMessage "byte list"
  | ReceivedBinary nat
  | CloseRequested
  | ReceivedPing
  | ReceivedPong
  | ProcessingError

definition handshake_response :: "string \<Rightarrow> string" where
  "handshake_response accept_key =
     ''HTTP/1.1 101 Switching Protocols'' @ [CHR 0x0D, CHR 0x0A]
     @ ''Upgrade: websocket'' @ [CHR 0x0D, CHR 0x0A]
     @ ''Connection: Upgrade'' @ [CHR 0x0D, CHR 0x0A]
     @ ''Sec-WebSocket-Accept: '' @ accept_key @ [CHR 0x0D, CHR 0x0A]
     @ [CHR 0x0D, CHR 0x0A]"

text \<open>
  \<open>WebSocketServer.perform_websocket_handshake\<close> (WS_Server.py lines 127-163).  The loop
  over the lines stops at the first line whose lower-cased text starts with
  \<open>sec-websocket-key:\<close>; any exception gives \<open>False\<close>.  The result is the value returned and
  what was sent and logged.
\<close>

fun find_websocket_key :: "string list \<Rightarrow> py_error + string option" where
  "find_websocket_key [] = Inr None"
| "find_websocket_key (line # lines) =
     (if startswith (lower line) ''sec-websocket-key:'' then
        (case item (split_once CHR '':'' line) 1 of
           Inl e \<Rightarrow> Inl e
         | Inr v \<Rightarrow> Inr (Some (strip v)))
      else find_websocket_key lines)"

definition perform_websocket_handshake ::
  "(byte list \<Rightarrow> bool) \<Rightarrow> recv_result \<Rightarrow> bool \<times> event list" where
  "perform_websocket_handshake utf8 received =
     (case received of
        Recv data \<Rightarrow>
          if \<not> utf8 data then (False, [HandshakeError])
          else
            (let request = bytes_decode data
             in case find_websocket_key (split2 (CHR 0x0D) (CHR 0x0A) request) of
                  Inl e \<Rightarrow> (False, [HandshakeError])
                | Inr None \<Rightarrow> (False, [NoKeyFound])
                | Inr (Some websocket_key) \<Rightarrow>
                    if websocket_key = [] then (False, [NoKeyFound])
                    else
                      (let accept_key = create_websocket_accept_key websocket_key;
                           response = handshake_response accept_key
                       in (True, [Sent (str_encode response), HandshakeCompleted])))
      | RecvTimeout \<Rightarrow> (False, [HandshakeError])
      | RecvError \<Rightarrow> (False, [HandshakeError]))"

text \<open>
  \<open>SimpleWebSocketServer.perform_handshake\<close> (simple_ws_server.py lines 31-66): the header
  name is compared as it is written, and the key is the second piece of the line split at
  \<open>': '\<close>.
\<close>

fun find_key_simple :: "string list \<Rightarrow> py_error + string option" where
  "find_key_simple [] = Inr None"
| "find_key_simple (line # lines) =
     (if startswith line ''Sec-WebSocket-Key:'' then
        (case item (split2 CHR '':'' CHR '' '' line) 1 of
           Inl e \<Rightarrow> Inl e
         | Inr v \<Rightarrow> Inr (Some v))
      else find_key_simple lines)"

definition perform_handshake ::
  "(byte list \<Rightarrow> bool) \<Rightarrow> recv_result \<Rightarrow> bool \<times> event list" where
  "perform_handshake utf8 received =
     (case received of
        Recv data \<Rightarrow>
          if \<not> utf8 data then (False, [HandshakeError])
          else
            (let request = bytes_decode data
             in case find_key_simple (split2 (CHR 0x0D) (CHR 0x0A) request) of
                  Inl e \<Rightarrow> (False, [HandshakeError])
                | Inr None \<Rightarrow> (False, [NoKeyFound])
                | Inr (Some websocket_key) \<Rightarrow>
                    if websocket_key = [] then (False, [NoKeyFound])
                    else
                      (let accept_key = generate_accept_key websocket_key;
                           response = handshake_response accept_key
                       in (True, [Sent (str_encode response), HandshakeCompleted])))
      | RecvTimeout \<Rightarrow> (False, [HandshakeError])
      | RecvError \<Rightarrow> (False, [HandshakeError]))"

section \<open>Connection handlers\<close>

subsection \<open>\<open>WebSocketServer\<close> (WS_Server.py)\<close>

text \<open>\<open>send_pong\<close>, lines 181-188; \<open>WS_OPCODE_PONG\<close> is \<open>0xa\<close>.\<close>

definition send_pong :: "byte list \<Rightarrow> event list" where
  "send_pong payload =
     (case create_websocket_frame 0xa payload of
        Inl e \<Rightarrow> [PongError e]
      | Inr pong_frame \<Rightarrow> [Sent pong_frame, PongSent])"

text \<open>
  The loop of \<open>handle_client\<close>, lines 203-254, over what the successive calls of \<open>recv\<close>
  give; the list is exhausted when \<open>self.running\<close> has become false.  Each iteration parses
  the bytes of one \<open>recv\<close> and nothing else.
\<close>

fun handle_frames :: "(byte list \<Rightarrow> bool) \<Rightarrow> recv_result list \<Rightarrow> event list" where
  "handle_frames utf8 [] = []"
| "handle_frames utf8 (RecvTimeout # reads) = [ConnectionClosed]"
| "handle_frames utf8 (RecvError # reads) = [ConnectionClosed]"
| "handle_frames utf8 (Recv data # reads) =
     (if data = [] then []
      else case parse_websocket_frame data of
             Inl e \<Rightarrow> [FrameError e]
           | Inr None \<Rightarrow> InvalidFrame # handle_frames utf8 reads
           | Inr (Some (opcode, payload)) \<Rightarrow>
               if opcode = 0x1 then
                 (if utf8 payload then StreamMessage payload else DecodeFailed)
                   # handle_frames utf8 reads
               else if opcode = 0x2 then BinaryStream payload # handle_frames utf8 reads
               else if opcode = 0x9 then send_pong payload @ handle_frames utf8 reads
               else if opcode = 0xa then PongReceived # handle_frames utf8 reads
               else if opcode = 0x8 then [CloseReceived]
               else UnknownOpcode opcode # handle_frames utf8 reads)"

text \<open>\<open>register_client\<close> and \<open>unregister_client\<close>, lines 165-179, on the set
  \<open>connected_clients\<close>; both log the number of connections.\<close>

definition register_client :: "'s \<Rightarrow> 's set \<Rightarrow> 's set \<times> event list" where
  "register_client client_socket connected_clients =
     (let connected_clients = insert client_socket connected_clients
      in (connected_clients, [ClientConnected (card connected_clients)]))"

definition unregister_client :: "'s \<Rightarrow> 's set \<Rightarrow> 's set \<times> event list" where
  "unregister_client client_socket connected_clients =
     (let connected_clients = connected_clients - {client_socket}
      in (connected_clients, [ClientDisconnected (card connected_clients)]))"

text \<open>
  \<open>handle_client\<close>, lines 190-263: the handshake, the registration after a successful
  handshake, the loop, and the \<open>finally\<close> block, which runs on every way out.  The result
  is the set \<open>connected_clients\<close> at the end and what the handler did.
\<close>

definition handle_client ::
  "(byte list \<Rightarrow> bool) \<Rightarrow> 's \<Rightarrow> recv_result \<Rightarrow> recv_result list \<Rightarrow> 's set
     \<Rightarrow> 's set \<times> event list" where
  "handle_client utf8 client_socket received reads connected_clients =
     (case perform_websocket_handshake utf8 received of
        (False, hs) \<Rightarrow>
          (case unregister_client client_socket connected_clients of
             (cs, un) \<Rightarrow> (cs, hs @ [HandshakeFailedForClient, SocketClosed] @ un @ [SocketClosed]))
      | (True, hs) \<Rightarrow>
          (case register_client client_socket connected_clients of
             (cs, reg) \<Rightarrow>
               (case unregister_client client_socket cs of
                  (cs, un) \<Rightarrow>
                    (cs, hs @ reg @ handle_frames utf8 reads @ un @ [SocketClosed]))))"

subsection \<open>\<open>SimpleWebSocketServer\<close> (simple_ws_server.py)\<close>

text \<open>The loop of \<open>handle_client\<close>, lines 139-165: a timeout continues the loop, any other
  exception ends it; a frame whose opcode is none of 1, 2, 8, 9, 10 gets no branch.\<close>

fun simple_handle_frames :: "(byte list \<Rightarrow> bool) \<Rightarrow> recv_result list \<Rightarrow> event list" where
  "simple_handle_frames utf8 [] = []"
| "simple_handle_frames utf8 (RecvTimeout # reads) = simple_handle_frames utf8 reads"
| "simple_handle_frames utf8 (RecvError # reads) = [ProcessingError]"
| "simple_handle_frames utf8 (Recv data # reads) =
     (if data = [] then []
      else case decode_frame data of
             Inl e \<Rightarrow> [ProcessingError]
           | Inr None \<Rightarrow> simple_handle_frames utf8 reads
           | Inr (Some frame) \<Rightarrow>
               if frame_opcode frame = 1 then
                 (if utf8 (frame_payload frame)
                  then ReceivedMessage (frame_payload frame) # simple_handle_frames utf8 reads
                  else [ProcessingError])
               else if frame_opcode frame = 2 then
                 ReceivedBinary (length (frame_payload frame)) # simple_handle_frames utf8 reads
               else if frame_opcode frame = 8 then [CloseRequested]
               else if frame_opcode frame = 9 then ReceivedPing # simple_handle_frames utf8 reads
               else if frame_opcode frame = 10 then ReceivedPong # simple_handle_frames utf8 reads
               else simple_handle_frames utf8 reads)"

section \<open>The wire layout of a frame\<close>

text \<open>
  The quantities the properties below speak about, read off a buffer \<open>d\<close> as the frame
  layout prescribes: the 7-bit length field and the mask bit of the second byte, the size of
  the extended length field (two bytes after the marker 126, eight after 127), the declared
  payload length, the four bytes of masking key of a masked frame, and the payload bytes as
  they are on the wire.
\<close>

definition len7 :: "byte list \<Rightarrow> nat" where
  "len7 d = unat (d ! 1 AND 0x7f)"

definition mask_bit :: "byte list \<Rightarrow> bool" where
  "mask_bit d = bit (d ! 1) 7"

definition length_field_size :: "byte list \<Rightarrow> nat" where
  "length_field_size d = (if len7 d = 126 then 2 else if len7 d = 127 then 8 else 0)"

definition declared_payload_length :: "byte list \<Rightarrow> nat" where
  "declared_payload_length d =
     (if len7 d = 126 then be_nat (slice d 2 4)
      else if len7 d = 127 then be_nat (slice d 2 10)
      else len7 d)"

definition mask_key_size :: "byte list \<Rightarrow> nat" where
  "mask_key_size d = (if mask_bit d then 4 else 0)"

definition payload_offset :: "byte list \<Rightarrow> nat" where
  "payload_offset d = 2 + length_field_size d + mask_key_size d"

definition frame_size :: "byte list \<Rightarrow> nat" where
  "frame_size d = payload_offset d + declared_payload_length d"

definition frame_key :: "byte list \<Rightarrow> byte list" where
  "frame_key d = slice d (2 + length_field_size d) (2 + length_field_size d + 4)"

definition raw_payload :: "byte list \<Rightarrow> byte list" where
  "raw_payload d = slice d (payload_offset d) (payload_offset d + declared_payload_length d)"

text \<open>
  A buffer holds fewer bytes than one complete frame when it is cut inside the first two
  bytes, inside the 16-bit or 64-bit length field, inside the masking key, or before the end
  of the declared payload.
\<close>

definition incomplete :: "byte list \<Rightarrow> bool" where
  "incomplete d =
     (if length d < 2 then True
      else if length d < 2 + length_field_size d then True
      else if length d < 2 + length_field_size d + mask_key_size d then True
      else length d < 2 + length_field_size d + mask_key_size d + declared_payload_length d)"

text \<open>
  The length encoding rule: a length below 126 is the 7-bit field itself, a length below
  65536 is the marker 126 and a big-endian 16-bit length, any other the marker 127 and a
  big-endian 64-bit length.
\<close>

definition length_field :: "nat \<Rightarrow> byte list" where
  "length_field n =
     (if n < 126 then [of_nat n]
      else if n < 65536 then 126 # be_bytes 2 n
      else 127 # be_bytes 8 n)"

section \<open>Properties of the frame codec\<close>

subsection \<open>Bytes and big-endian numbers\<close>


lemma len7_bound: "unat ((b::byte) AND 0x7f) < 128"
proof -
  have "unat (b AND 0x7f) \<le> unat (0x7f :: byte)"
    by (rule word_and_le1 [THEN word_le_nat_alt [THEN iffD1]])
  then show ?thesis by simp
qed

lemma mask_bit_iff: "(drop_bit 7 (b::byte) AND 1 \<noteq> 0) = bit b 7"
  by (simp add: and_one_eq bit_iff_and_drop_bit_eq_1)

lemma unat_of_nat_mod: "unat (of_nat (n mod 256) :: byte) = n mod 256"
  by (simp add: unat_of_nat)

lemma and_7f: "(b::byte) AND 0x7f = take_bit 7 b"
  by (simp add: take_bit_eq_mask mask_eq_exp_minus_1)

lemma of_nat_small: "n < 128 \<Longrightarrow> unat ((of_nat n :: byte) AND 0x7f) = n"
  by (simp add: and_7f unsigned_take_bit_eq unat_of_nat take_bit_nat_eq_self)

lemma of_nat_small_bit: "n < 128 \<Longrightarrow> \<not> bit (of_nat n :: byte) 7"
proof -
  assume "n < 128"
  then have "\<not> bit n 7" by (simp add: bit_iff_odd)
  then show ?thesis by (simp only: bit_of_nat_iff) simp
qed

lemma opcode_cases: "0 \<le> op \<Longrightarrow> op < 16 \<Longrightarrow> op \<in> {0,1,2,3,4,5,6,7,8,9,10,11,12,13,14,15::int}"
  by simp presburger

lemma opcode_byte: "0 \<le> op \<Longrightarrow> op < 16 \<Longrightarrow> uint ((word_of_int (0x80 OR op) :: byte) AND 0x0f) = op"
  using opcode_cases [of op] by auto

lemma opcode_range: "0 \<le> op \<Longrightarrow> op < 16 \<Longrightarrow> 0 \<le> (0x80 OR op) \<and> (0x80 OR op) < (256::int)"
  using opcode_cases [of op] by auto

lemma opcode_fin: "0 \<le> op \<Longrightarrow> op < 16 \<Longrightarrow> drop_bit 7 (word_of_int (0x80 OR op) :: byte) AND 1 = 1"
  using opcode_cases [of op] by auto


lemma be_nat_snoc: "be_nat (bs @ [b]) = be_nat bs * 256 + unat b"
  by (simp add: be_nat_def)

lemma length_be_bytes: "length (be_bytes k n) = k"
  by (induction k arbitrary: n) auto

lemma be_nat_be_bytes: "n < 256 ^ k \<Longrightarrow> be_nat (be_bytes k n) = n"
proof (induction k arbitrary: n)
  case 0
  then show ?case by (simp add: be_nat_def)
next
  case (Suc k)
  then have "n div 256 < 256 ^ k" by (simp add: less_mult_imp_div_less mult.commute)
  with Suc.IH have "be_nat (be_bytes k (n div 256)) = n div 256" by blast
  then show ?case by (simp add: be_nat_snoc unat_of_nat_mod)
qed



subsection \<open>The XOR cycle\<close>


lemma item_key4: "length key = 4 \<Longrightarrow> item key (i mod 4) = Inr (key ! (i mod 4))"
  by (simp add: item_def)

lemma xor_cycle_Inr:
  "length key = 4 \<Longrightarrow> \<exists>out. xor_cycle key p i = Inr out \<and> length out = length p"
proof (induction p arbitrary: i)
  case Nil
  then show ?case by simp
next
  case (Cons b p)
  from Cons.IH [OF Cons.prems, of "Suc i"] obtain out
    where "xor_cycle key p (Suc i) = Inr out" "length out = length p" by blast
  with Cons.prems show ?case by (simp add: item_key4)
qed

lemma xor_cycle_twice:
  "length key = 4 \<Longrightarrow> xor_cycle key p i = Inr m \<Longrightarrow> xor_cycle key m i = Inr p"
proof (induction p arbitrary: i m)
  case Nil
  then show ?case by simp
next
  case (Cons b p)
  from xor_cycle_Inr [OF Cons.prems(1), of p "Suc i"] obtain out
    where out: "xor_cycle key p (Suc i) = Inr out" by blast
  with Cons.prems have m: "m = (b XOR key ! (i mod 4)) # out"
    by (simp add: item_key4)
  from Cons.IH [OF Cons.prems(1) out] have "xor_cycle key out (Suc i) = Inr p" .
  with m Cons.prems(1) show ?case
    by (simp add: item_key4 xor.assoc)
qed


subsection \<open>The decoders in terms of the wire layout\<close>
lemma length_slice: "b \<le> length xs \<Longrightarrow> length (slice xs a b) = b - a"
  by (simp add: slice_def)

lemma parse_length_eq:
  "2 \<le> length d \<Longrightarrow>
   parse_length d (len7 d) 2 =
     (if length d < 2 + length_field_size d then Inr None
      else Inr (Some (declared_payload_length d, 2 + length_field_size d)))"
  by (auto simp add: parse_length_def length_field_size_def declared_payload_length_def
      struct_unpack_def length_slice)

lemma header_length_of_eq:
  "header_length_of d n = parse_length d n 2"
  by (auto simp add: parse_length_def header_length_of_def split: sum.splits)

lemma parse_masking_key_eq:
  "parse_masking_key d (drop_bit 7 b AND 1) off =
     (if bit b 7 then (if length d < off + 4 then None else Some (Some (slice d off (off + 4)), off + 4))
      else Some (None, off))"
  using mask_bit_iff [of b] by (simp add: parse_masking_key_def)

lemma length_ge2E:
  assumes "\<not> length d < 2"
  obtains b0 b1 rest where "d = b0 # b1 # rest"
  using assms by (cases d; cases "tl d") auto

lemma parse_websocket_frame_head:
  "parse_websocket_frame d =
     (if length d < 2 then Inr None
      else case parse_length d (len7 d) 2 of
             Inl e \<Rightarrow> Inl e
           | Inr None \<Rightarrow> Inr None
           | Inr (Some (n, off)) \<Rightarrow>
              (if mask_bit d then
                 (if length d < off + 4 + n then Inr None
                  else case unmask (slice d (off + 4) (off + 4 + n)) (slice d off (off + 4)) of
                         Inl e \<Rightarrow> Inl e
                       | Inr p \<Rightarrow> Inr (Some (uint (d ! 0 AND 0x0f), p)))
               else if length d < off + n then Inr None
               else Inr (Some (uint (d ! 0 AND 0x0f), slice d off (off + n)))))"
proof (cases "length d < 2")
  case True
  then show ?thesis by (simp add: parse_websocket_frame_def)
next
  case False
  then obtain b0 b1 rest where d: "d = b0 # b1 # rest" by (rule length_ge2E)
  have k: "slice d off (off + 4) \<noteq> []" if "\<not> length d < off + 4 + n" for off n
    using that by (simp add: slice_def)
  show ?thesis
    unfolding parse_websocket_frame_def Let_def parse_masking_key_eq
    using k by (auto simp add: d item_def len7_def mask_bit_def mask_bit_iff
        split: sum.splits option.splits)
qed


lemma decode_frame_head:
  "decode_frame d =
     (if length d < 2 then Inr None
      else case parse_length d (len7 d) 2 of
             Inl e \<Rightarrow> Inl e
           | Inr None \<Rightarrow> Inr None
           | Inr (Some (n, off)) \<Rightarrow>
              (if mask_bit d then
                 (if length d < off + 4 + n then Inr None
                  else case unmask (slice d (off + 4) (off + 4 + n)) (slice d off (off + 4)) of
                         Inl e \<Rightarrow> Inl e
                       | Inr p \<Rightarrow>
                           Inr (Some \<lparr>frame_fin = drop_bit 7 (d ! 0) AND 1,
                                      frame_opcode = uint (d ! 0 AND 0x0f),
                                      frame_payload = p, frame_payload_length = n\<rparr>))
               else if length d < off + n then Inr None
               else Inr (Some \<lparr>frame_fin = drop_bit 7 (d ! 0) AND 1,
                               frame_opcode = uint (d ! 0 AND 0x0f),
                               frame_payload = slice d off (off + n),
                               frame_payload_length = n\<rparr>)))"
proof (cases "length d < 2")
  case True
  then show ?thesis by (simp add: decode_frame_def)
next
  case False
  then obtain b0 b1 rest where d: "d = b0 # b1 # rest" by (rule length_ge2E)
  show ?thesis
    unfolding decode_frame_def Let_def header_length_of_eq
    using mask_bit_iff [of b1]
    by (auto simp add: d item_def len7_def mask_bit_def
        split: sum.splits option.splits)
qed

lemma client_decode_frame_head:
  "client_decode_frame d =
     (if length d < 2 then Inr None
      else case parse_length d (len7 d) 2 of
             Inl e \<Rightarrow> Inl e
           | Inr None \<Rightarrow> Inr None
           | Inr (Some (n, off)) \<Rightarrow>
              (if length d < off + n then Inr None
               else Inr (Some \<lparr>frame_fin = drop_bit 7 (d ! 0) AND 1,
                               frame_opcode = uint (d ! 0 AND 0x0f),
                               frame_payload = slice d off (off + n),
                               frame_payload_length = n\<rparr>)))"
proof (cases "length d < 2")
  case True
  then show ?thesis by (simp add: client_decode_frame_def)
next
  case False
  then obtain b0 b1 rest where d: "d = b0 # b1 # rest" by (rule length_ge2E)
  show ?thesis
    unfolding client_decode_frame_def Let_def header_length_of_eq
    by (auto simp add: d item_def len7_def
        split: sum.splits option.splits)
qed

lemma unmask_key4:
  "length key = 4 \<Longrightarrow> \<exists>out. unmask p key = Inr out \<and> length out = length p"
  unfolding unmask_def by (rule xor_cycle_Inr)

lemma parse_websocket_frame_incomplete:
  "incomplete d \<Longrightarrow> parse_websocket_frame d = Inr None"
  unfolding parse_websocket_frame_head
  by (auto simp add: parse_length_eq incomplete_def mask_key_size_def split: if_splits)

lemma decode_frame_incomplete:
  "incomplete d \<Longrightarrow> decode_frame d = Inr None"
  unfolding decode_frame_head
  by (auto simp add: parse_length_eq incomplete_def mask_key_size_def split: if_splits)

lemma parse_websocket_frame_complete:
  assumes "\<not> incomplete d"
  shows "\<exists>p. parse_websocket_frame d = Inr (Some (uint (d ! 0 AND 0x0f), p))
           \<and> length p = declared_payload_length d
           \<and> (if mask_bit d then unmask (raw_payload d) (frame_key d) = Inr p
               else p = raw_payload d)"
proof -
  from assms have len: "\<not> length d < 2" "\<not> length d < 2 + length_field_size d"
    "\<not> length d < payload_offset d"
    "\<not> length d < payload_offset d + declared_payload_length d"
    by (auto simp add: incomplete_def payload_offset_def split: if_splits)
  show ?thesis
  proof (cases "mask_bit d")
    case True
    then have off: "payload_offset d = 2 + length_field_size d + 4"
      by (simp add: payload_offset_def mask_key_size_def)
    with len have "length (frame_key d) = 4"
      by (simp add: frame_key_def slice_def)
    from unmask_key4 [OF this, of "raw_payload d"] obtain out
      where out: "unmask (raw_payload d) (frame_key d) = Inr out"
        "length out = length (raw_payload d)" by blast
    have "length (raw_payload d) = declared_payload_length d"
      using len by (simp add: raw_payload_def slice_def)
    with out True len off show ?thesis
      unfolding parse_websocket_frame_head
      by (simp add: parse_length_eq raw_payload_def frame_key_def add.assoc)
  next
    case False
    then have off: "payload_offset d = 2 + length_field_size d"
      by (simp add: payload_offset_def mask_key_size_def)
    have "length (raw_payload d) = declared_payload_length d"
      using len by (simp add: raw_payload_def slice_def)
    with False len off show ?thesis
      unfolding parse_websocket_frame_head
      by (simp add: parse_length_eq raw_payload_def)
  qed
qed

lemma incomplete_iff:
  "incomplete d = (length d < 2 \<or> length d < 2 + length_field_size d \<or> length d < frame_size d)"
  by (auto simp add: incomplete_def frame_size_def payload_offset_def)

lemma slice_take: "b \<le> n \<Longrightarrow> slice (take n xs) a b = slice xs a b"
proof -
  assume "b \<le> n"
  have "take (b - a) (drop a (take n xs)) = take (b - a) (take (n - a) (drop a xs))"
    by (simp add: drop_take)
  also have "\<dots> = take (min (b - a) (n - a)) (drop a xs)" by simp
  also from \<open>b \<le> n\<close> have "min (b - a) (n - a) = b - a" by simp
  finally show ?thesis by (simp add: slice_def)
qed

lemma header_take:
  assumes "2 \<le> n"
  shows "len7 (take n d) = len7 d" "mask_bit (take n d) = mask_bit d"
    "length_field_size (take n d) = length_field_size d"
    "mask_key_size (take n d) = mask_key_size d"
    "payload_offset (take n d) = payload_offset d"
  using assms
  by (simp_all add: len7_def mask_bit_def length_field_size_def mask_key_size_def payload_offset_def)

lemma declared_take:
  assumes "2 \<le> n" "2 + length_field_size d \<le> n"
  shows "declared_payload_length (take n d) = declared_payload_length d"
  using assms
  by (auto simp add: declared_payload_length_def header_take length_field_size_def slice_take
      split: if_splits)

lemma incomplete_take:
  assumes "n < frame_size d"
  shows "incomplete (take n d)"
proof (cases "n < 2 \<or> n < 2 + length_field_size d")
  case True
  then show ?thesis by (auto simp add: incomplete_iff header_take)
next
  case False
  then have n: "2 \<le> n" "2 + length_field_size d \<le> n" by auto
  have "frame_size (take n d) = frame_size d"
    by (simp add: frame_size_def header_take(5) [OF n(1)] declared_take [OF n])
  moreover have "length (take n d) \<le> n" by simp
  ultimately have "length (take n d) < frame_size (take n d)" using assms by linarith
  then show ?thesis unfolding incomplete_iff [of "take n d"] by blast
qed


subsection \<open>Encoded frames\<close>

lemma create_websocket_frame_eq:
  assumes "0 \<le> op" "op < 16" "length p < 2 ^ 64"
  shows "create_websocket_frame op p = Inr (word_of_int (0x80 OR op) # length_field (length p) @ p)"
proof -
  from opcode_range [OF assms(1,2)]
  have b0: "bytearray_append [] (0x80 OR op) = Inr [word_of_int (0x80 OR op)]"
    by (simp add: bytearray_append_def)
  have pk2: "struct_pack 2 (length p) = Inr (be_bytes 2 (length p))" if "length p < 65536"
    using that by (simp add: struct_pack_def)
  have pk8: "struct_pack 8 (length p) = Inr (be_bytes 8 (length p))"
    using assms(3) by (simp add: struct_pack_def)
  show ?thesis
    unfolding create_websocket_frame_def b0 Let_def length_field_def
    by (simp add: bytearray_append_def pk2 pk8)
qed

lemma layout_of_length_field:
  assumes "n < 2 ^ 64" and d: "d = b0 # length_field n @ rest"
  shows "len7 d = (if n < 126 then n else if n < 65536 then 126 else 127)"
    and "\<not> mask_bit d"
    and "declared_payload_length d = n"
    and "payload_offset d = 1 + length (length_field n)"
proof -
  show l7: "len7 d = (if n < 126 then n else if n < 65536 then 126 else 127)"
    by (simp add: d len7_def length_field_def of_nat_small)
  show nm: "\<not> mask_bit d"
    by (simp add: d mask_bit_def length_field_def of_nat_small_bit)
  have s2: "slice d 2 4 = be_bytes 2 n" if "\<not> n < 126" "n < 65536"
    using that by (simp add: d length_field_def slice_def length_be_bytes)
  have s8: "slice d 2 10 = be_bytes 8 n" if "\<not> n < 65536"
    using that by (simp add: d length_field_def slice_def length_be_bytes)
  show "declared_payload_length d = n"
    using assms(1) by (simp add: declared_payload_length_def l7 s2 s8 be_nat_be_bytes)
  show "payload_offset d = 1 + length (length_field n)"
    by (simp add: payload_offset_def length_field_size_def l7 mask_key_size_def nm
        length_field_def length_be_bytes)
qed



lemma length_field_nonempty: "length_field n \<noteq> []"
  by (simp add: length_field_def)

lemma created_frame_complete:
  assumes n: "length p < 2 ^ 64" and d: "d = b0 # length_field (length p) @ p"
  shows "\<not> incomplete d" and "raw_payload d = p" and "frame_size d = length d"
proof -
  note lay = layout_of_length_field [OF n d]
  from lay(4) have off: "2 + length_field_size d = 1 + length (length_field (length p))"
    by (simp add: payload_offset_def mask_key_size_def lay(2))
  have len: "length d = 1 + length (length_field (length p)) + length p"
    by (simp add: d)
  show fs: "frame_size d = length d"
    by (simp add: frame_size_def lay(3,4) len)
  show "\<not> incomplete d"
    unfolding incomplete_iff fs using off len length_field_nonempty [of "length p"] by simp
  show "raw_payload d = p"
    unfolding raw_payload_def lay(3,4) by (simp add: slice_def d)
qed

lemma roundtrip_parse:
  assumes "0 \<le> op" "op < 16" "length p < 2 ^ 64"
  shows "parse_websocket_frame (word_of_int (0x80 OR op) # length_field (length p) @ p)
           = Inr (Some (op, p))"
proof -
  define d where "d = (word_of_int (0x80 OR op) :: byte) # length_field (length p) @ p"
  note c = created_frame_complete [OF assms(3) d_def]
  note lay = layout_of_length_field [OF assms(3) d_def]
  from parse_websocket_frame_complete [OF c(1)] lay(2) c(2)
  have "parse_websocket_frame d = Inr (Some (uint (d ! 0 AND 0x0f), p))" by auto
  moreover have "uint (d ! 0 AND 0x0f) = op"
    using opcode_byte [OF assms(1,2)] by (simp add: d_def)
  ultimately show ?thesis by (simp add: d_def)
qed

lemma decode_frame_eq_parse:
  "decode_frame d =
     (case parse_websocket_frame d of
        Inl e \<Rightarrow> Inl e
      | Inr None \<Rightarrow> Inr None
      | Inr (Some (op, p)) \<Rightarrow>
          Inr (Some \<lparr>frame_fin = drop_bit 7 (d ! 0) AND 1, frame_opcode = op,
                     frame_payload = p, frame_payload_length = declared_payload_length d\<rparr>))"
proof (cases "length d < 2")
  case True
  then show ?thesis by (simp add: decode_frame_head parse_websocket_frame_head)
next
  case False
  then have "2 \<le> length d" by simp
  note pl = parse_length_eq [OF this]
  show ?thesis
    unfolding decode_frame_head parse_websocket_frame_head pl
    by (simp split: sum.splits)
qed

lemma client_decode_frame_unmasked:
  "\<not> mask_bit d \<Longrightarrow> client_decode_frame d = decode_frame d"
  unfolding decode_frame_head client_decode_frame_head
  by (simp split: sum.splits option.splits)

lemma parse_websocket_frame_no_error: "parse_websocket_frame d \<noteq> Inl e"
proof (cases "incomplete d")
  case True
  then show ?thesis by (simp add: parse_websocket_frame_incomplete)
next
  case False
  from parse_websocket_frame_complete [OF this] show ?thesis by auto
qed

lemma decode_frame_no_error: "decode_frame d \<noteq> Inl e"
  using parse_websocket_frame_no_error [of d]
  by (auto simp add: decode_frame_eq_parse split: sum.splits option.splits)


lemma slice_append:
  assumes "a \<le> b" "b \<le> c"
  shows "slice xs a b @ slice xs b c = slice xs a c"
proof -
  from assms have "c - a = (b - a) + (c - b)" by simp
  then have "take (c - a) (drop a xs)
      = take (b - a) (drop a xs) @ take (c - b) (drop (b - a) (drop a xs))"
    by (simp only: take_add)
  moreover from assms have "drop (b - a) (drop a xs) = drop b xs" by simp
  ultimately show ?thesis by (simp add: slice_def)
qed

lemma take_slice: "take n (slice xs a c) = slice xs a (a + min n (c - a))"
  by (simp add: slice_def min.commute)

lemma client_decode_frame_masked:
  assumes "mask_bit d" "\<not> incomplete d"
  shows "client_decode_frame d =
           Inr (Some \<lparr>frame_fin = drop_bit 7 (d ! 0) AND 1,
                      frame_opcode = uint (d ! 0 AND 0x0f),
                      frame_payload = take (declared_payload_length d) (frame_key d @ raw_payload d),
                      frame_payload_length = declared_payload_length d\<rparr>)"
proof -
  define h where "h = 2 + length_field_size d"
  define n where "n = declared_payload_length d"
  from assms have len: "\<not> length d < 2" "\<not> length d < h" "\<not> length d < h + 4 + n"
    and off: "payload_offset d = h + 4"
    by (auto simp add: incomplete_def payload_offset_def mask_key_size_def h_def n_def
        split: if_splits)
  have "frame_key d @ raw_payload d = slice d h (h + 4 + n)"
    unfolding frame_key_def raw_payload_def off h_def [symmetric] n_def [symmetric]
    by (rule slice_append) simp_all
  then have tk: "take n (frame_key d @ raw_payload d) = slice d h (h + n)"
    by (simp only: take_slice) simp
  have pl: "parse_length d (len7 d) 2 = Inr (Some (n, h))"
    using len by (simp add: parse_length_eq h_def n_def)
  have ln: "\<not> length d < h + n" using len by simp
  have "client_decode_frame d =
           Inr (Some \<lparr>frame_fin = drop_bit 7 (d ! 0) AND 1,
                      frame_opcode = uint (d ! 0 AND 0x0f),
                      frame_payload = slice d h (h + n),
                      frame_payload_length = n\<rparr>)"
    unfolding client_decode_frame_head pl using len(1) ln by simp
  also note tk [symmetric]
  finally show ?thesis unfolding n_def .
qed

lemma masked_hello_layout:
  "mask_bit [0x81, 0x85, 0x37, 0xfa, 0x21, 0x3d, 0x7f, 0x9f, 0x4d, 0x51, 0x58]"
  "\<not> incomplete [0x81, 0x85, 0x37, 0xfa, 0x21, 0x3d, 0x7f, 0x9f, 0x4d, 0x51, 0x58]"
  by (simp_all add: mask_bit_def incomplete_def len7_def length_field_size_def mask_key_size_def
      declared_payload_length_def)


section \<open>The codec properties\<close>


text \<open>
  C4.  Masking involution: for every payload \<open>p\<close> and every 4-byte mask key \<open>k\<close>, the client's
  masking loop succeeds, and the server's unmasking loop applied to its result with the same
  key gives \<open>p\<close> back.
\<close>

theorem masking_involution:
  "length k = 4 \<Longrightarrow> \<exists>m. mask p k = Inr m \<and> unmask m k = Inr p"
  unfolding mask_def unmask_def
  using xor_cycle_Inr [of k p 0] xor_cycle_twice [of k p 0] by blast

theorem masking_involution_witness:
  "length [0x37, 0xfa, 0x21, 0x3d :: byte] = 4 \<and>
   (\<exists>m. mask [0x48, 0x65, 0x6c, 0x6c, 0x6f] [0x37, 0xfa, 0x21, 0x3d] = Inr m \<and>
        unmask m [0x37, 0xfa, 0x21, 0x3d] = Inr [0x48, 0x65, 0x6c, 0x6c, 0x6f]) \<and>
   mask [0x48, 0x65, 0x6c, 0x6c, 0x6f] [0x37, 0xfa, 0x21, 0x3d]
     = Inr [0x7f, 0x9f, 0x4d, 0x51, 0x58]"
  using masking_involution [of "[0x37, 0xfa, 0x21, 0x3d]" "[0x48, 0x65, 0x6c, 0x6c, 0x6f]"]
  by (simp add: mask_def item_def)

text \<open>
  C2.  Partial-buffer safety of the two server decoders: on a buffer that holds fewer bytes
  than one complete frame both return the no-frame result, and so they do on every prefix of
  a buffer that is shorter than the frame the buffer declares; neither decoder ever raises.
\<close>

theorem partial_buffer_needs_more_data:
  "(incomplete d \<longrightarrow> parse_websocket_frame d = Inr None \<and> decode_frame d = Inr None) \<and>
   (n < frame_size d \<longrightarrow>
      parse_websocket_frame (take n d) = Inr None \<and> decode_frame (take n d) = Inr None) \<and>
   parse_websocket_frame d \<noteq> Inl e \<and> decode_frame d \<noteq> Inl e"
  using incomplete_take [of n d]
  by (simp add: parse_websocket_frame_incomplete decode_frame_incomplete
      parse_websocket_frame_no_error decode_frame_no_error)

theorem partial_buffer_needs_more_data_witness:
  "incomplete [0x81, 0x85, 0x37] \<and> 1 < frame_size [0x81, 0x85, 0x37] \<and>
   parse_websocket_frame [0x81, 0x85, 0x37] = Inr None \<and>
   decode_frame [0x81, 0x85, 0x37] = Inr None \<and>
   parse_websocket_frame (take 1 [0x81, 0x85, 0x37]) = Inr None \<and>
   decode_frame (take 1 [0x81, 0x85, 0x37]) = Inr None"
proof -
  have l: "len7 [0x81, 0x85, 0x37] = 5" by (simp add: len7_def)
  have m: "mask_bit [0x81, 0x85, 0x37]" by (simp add: mask_bit_def)
  have i: "incomplete [0x81, 0x85, 0x37]"
    by (simp add: incomplete_def length_field_size_def mask_key_size_def l m)
  have f: "1 < frame_size [0x81, 0x85, 0x37]"
    by (simp add: frame_size_def payload_offset_def)
  from i f partial_buffer_needs_more_data [of "[0x81, 0x85, 0x37]" 1]
  show ?thesis by blast
qed

text \<open>
  C3.  Round trip: for an opcode of four bits and a payload shorter than \<open>2 ^ 64\<close> bytes,
  \<open>create_websocket_frame\<close> returns the byte \<open>0x80 | opcode\<close>, the length field of the length
  encoding rule and the payload, unmasked; \<open>parse_websocket_frame\<close> decodes these bytes to the
  same opcode and payload, and reads the payload's length as the declared length.
\<close>

theorem encode_decode_roundtrip:
  assumes "0 \<le> opcode" "opcode < 16" "length payload < 2 ^ 64"
  shows "\<exists>bytes. create_websocket_frame opcode payload = Inr bytes \<and>
           bytes = word_of_int (0x80 OR opcode) # length_field (length payload) @ payload \<and>
           \<not> mask_bit bytes \<and>
           declared_payload_length bytes = length payload \<and>
           parse_websocket_frame bytes = Inr (Some (opcode, payload))"
  using create_websocket_frame_eq [OF assms] roundtrip_parse [OF assms]
    layout_of_length_field(2,3) [OF assms(3) refl]
  by simp

theorem encode_decode_roundtrip_witness:
  "(0::int) \<le> 1 \<and> (1::int) < 16 \<and> length [0x48, 0x69 :: byte] < 2 ^ 64 \<and>
   create_websocket_frame 1 [0x48, 0x69] = Inr [0x81, 0x02, 0x48, 0x69] \<and>
   parse_websocket_frame [0x81, 0x02, 0x48, 0x69] = Inr (Some (1, [0x48, 0x69]))"
  using encode_decode_roundtrip [of 1 "[0x48, 0x69]"]
  by (simp add: length_field_def)

text \<open>
  C10.  On a buffer that holds a complete unmasked frame the three decoders return the same
  opcode and the same payload.  On a complete masked frame the client's decoder neither skips
  the masking key nor unmasks: its payload is the first bytes, as many as the declared
  length, of the masking key followed by the masked payload, where the server decoders
  return the unmasked payload.
\<close>

theorem decoders_agree_unmasked_client_keeps_mask:
  "(\<not> mask_bit d \<and> \<not> incomplete d \<longrightarrow>
      (\<exists>fr. parse_websocket_frame d = Inr (Some (frame_opcode fr, frame_payload fr)) \<and>
            decode_frame d = Inr (Some fr) \<and> client_decode_frame d = Inr (Some fr))) \<and>
   (mask_bit d \<and> \<not> incomplete d \<longrightarrow>
      (\<exists>fr cfr. parse_websocket_frame d = Inr (Some (frame_opcode fr, frame_payload fr)) \<and>
            decode_frame d = Inr (Some fr) \<and> client_decode_frame d = Inr (Some cfr) \<and>
            frame_opcode cfr = frame_opcode fr \<and>
            unmask (raw_payload d) (frame_key d) = Inr (frame_payload fr) \<and>
            frame_payload cfr
              = take (declared_payload_length d) (frame_key d @ raw_payload d)))"
proof (intro conjI impI)
  assume a: "\<not> mask_bit d \<and> \<not> incomplete d"
  from a parse_websocket_frame_complete [of d] obtain p
    where p: "parse_websocket_frame d = Inr (Some (uint (d ! 0 AND 0x0f), p))" by blast
  show "\<exists>fr. parse_websocket_frame d = Inr (Some (frame_opcode fr, frame_payload fr)) \<and>
            decode_frame d = Inr (Some fr) \<and> client_decode_frame d = Inr (Some fr)"
    using a by (simp add: client_decode_frame_unmasked decode_frame_eq_parse p)
next
  assume a: "mask_bit d \<and> \<not> incomplete d"
  from a parse_websocket_frame_complete [of d] obtain p
    where p: "parse_websocket_frame d = Inr (Some (uint (d ! 0 AND 0x0f), p))"
      "unmask (raw_payload d) (frame_key d) = Inr p" by auto
  from a have c: "client_decode_frame d =
           Inr (Some \<lparr>frame_fin = drop_bit 7 (d ! 0) AND 1,
                      frame_opcode = uint (d ! 0 AND 0x0f),
                      frame_payload = take (declared_payload_length d) (frame_key d @ raw_payload d),
                      frame_payload_length = declared_payload_length d\<rparr>)"
    by (simp add: client_decode_frame_masked)
  show "\<exists>fr cfr. parse_websocket_frame d = Inr (Some (frame_opcode fr, frame_payload fr)) \<and>
            decode_frame d = Inr (Some fr) \<and> client_decode_frame d = Inr (Some cfr) \<and>
            frame_opcode cfr = frame_opcode fr \<and>
            unmask (raw_payload d) (frame_key d) = Inr (frame_payload fr) \<and>
            frame_payload cfr
              = take (declared_payload_length d) (frame_key d @ raw_payload d)"
    by (simp add: c decode_frame_eq_parse p)
qed

theorem decoders_agree_unmasked_client_keeps_mask_witness:
  "\<not> mask_bit [0x81, 0x02, 0x48, 0x69] \<and> \<not> incomplete [0x81, 0x02, 0x48, 0x69] \<and>
   mask_bit [0x81, 0x85, 0x37, 0xfa, 0x21, 0x3d, 0x7f, 0x9f, 0x4d, 0x51, 0x58] \<and>
   \<not> incomplete [0x81, 0x85, 0x37, 0xfa, 0x21, 0x3d, 0x7f, 0x9f, 0x4d, 0x51, 0x58] \<and>
   (\<exists>fr. parse_websocket_frame [0x81, 0x02, 0x48, 0x69]
            = Inr (Some (frame_opcode fr, frame_payload fr)) \<and>
         decode_frame [0x81, 0x02, 0x48, 0x69] = Inr (Some fr) \<and>
         client_decode_frame [0x81, 0x02, 0x48, 0x69] = Inr (Some fr)) \<and>
   (\<exists>fr cfr. decode_frame [0x81, 0x85, 0x37, 0xfa, 0x21, 0x3d, 0x7f, 0x9f, 0x4d, 0x51, 0x58]
                = Inr (Some fr) \<and>
         client_decode_frame [0x81, 0x85, 0x37, 0xfa, 0x21, 0x3d, 0x7f, 0x9f, 0x4d, 0x51, 0x58]
                = Inr (Some cfr) \<and>
         frame_payload cfr \<noteq> frame_payload fr)"
proof -
  have u: "\<not> mask_bit [0x81, 0x02, 0x48, 0x69]" "\<not> incomplete [0x81, 0x02, 0x48, 0x69]"
    by (simp_all add: mask_bit_def incomplete_def len7_def length_field_size_def
        mask_key_size_def declared_payload_length_def)
  have c: "client_decode_frame [0x81, 0x85, 0x37, 0xfa, 0x21, 0x3d, 0x7f, 0x9f, 0x4d, 0x51, 0x58]
      = Inr (Some \<lparr>frame_fin = 1, frame_opcode = 1,
                   frame_payload = [0x37, 0xfa, 0x21, 0x3d, 0x7f], frame_payload_length = 5\<rparr>)"
    by (simp add: client_decode_frame_def item_def header_length_of_def slice_def)
  have s: "decode_frame [0x81, 0x85, 0x37, 0xfa, 0x21, 0x3d, 0x7f, 0x9f, 0x4d, 0x51, 0x58]
      = Inr (Some \<lparr>frame_fin = 1, frame_opcode = 1,
                   frame_payload = [0x48, 0x65, 0x6c, 0x6c, 0x6f], frame_payload_length = 5\<rparr>)"
    by (simp add: decode_frame_def item_def header_length_of_def slice_def unmask_def)
  from decoders_agree_unmasked_client_keeps_mask [of "[0x81, 0x02, 0x48, 0x69]"] u
  have "\<exists>fr. parse_websocket_frame [0x81, 0x02, 0x48, 0x69]
            = Inr (Some (frame_opcode fr, frame_payload fr)) \<and>
         decode_frame [0x81, 0x02, 0x48, 0x69] = Inr (Some fr) \<and>
         client_decode_frame [0x81, 0x02, 0x48, 0x69] = Inr (Some fr)" by blast
  with u masked_hello_layout show ?thesis by (simp add: c s)
qed

text \<open>
  The claim as it was stated fails for the masked frame \<open>81 81 01 02 03 04 00\<close>: the payload
  \<open>01\<close> is \<open>00\<close> on the wire, so masking alters it, and still the client's decoder returns
  the same payload \<open>01\<close> as the two server decoders (the first byte of the key).
\<close>

theorem client_payload_differs_counterexample:
  "mask_bit [0x81, 0x81, 0x01, 0x02, 0x03, 0x04, 0x00] \<and>
   \<not> incomplete [0x81, 0x81, 0x01, 0x02, 0x03, 0x04, 0x00] \<and>
   raw_payload [0x81, 0x81, 0x01, 0x02, 0x03, 0x04, 0x00] = [0x00] \<and>
   parse_websocket_frame [0x81, 0x81, 0x01, 0x02, 0x03, 0x04, 0x00] = Inr (Some (1, [0x01])) \<and>
   decode_frame [0x81, 0x81, 0x01, 0x02, 0x03, 0x04, 0x00]
     = Inr (Some \<lparr>frame_fin = 1, frame_opcode = 1, frame_payload = [0x01],
                  frame_payload_length = 1\<rparr>) \<and>
   client_decode_frame [0x81, 0x81, 0x01, 0x02, 0x03, 0x04, 0x00]
     = Inr (Some \<lparr>frame_fin = 1, frame_opcode = 1, frame_payload = [0x01],
                  frame_payload_length = 1\<rparr>)"
  by (simp add: mask_bit_def incomplete_def len7_def length_field_size_def mask_key_size_def
      declared_payload_length_def raw_payload_def payload_offset_def slice_def
      parse_websocket_frame_def parse_length_def parse_masking_key_def
      decode_frame_def client_decode_frame_def header_length_of_def item_def unmask_def)


end
